theory Spec2Isabelle
  imports Complex_Main "HOL-Library.Multiset"
begin

section \<open>The notebook \<open>why_ANOVA_matters.ipynb\<close> as functions\<close>

text \<open>
  The notebook draws samples from the process-wide NumPy generator, hands them to two
  SciPy tests and counts how often a test rejects. The generator is the only state: a
  function that draws takes the generator state \<open>'g\<close> and returns the new one.

  The library is not part of the repository and enters as parameters:
  \<^item> \<open>normal\<close>: one draw of the generator from the normal distribution with mean \<open>loc\<close>
    and standard deviation \<open>scale\<close>, giving the value and the advanced state; the
    standard normal distribution (mean 0, variance 1) is \<open>normal 0 1\<close>;
  \<^item> \<open>ttest_ind\<close>: the \<open>pvalue\<close> field of \<open>scipy.stats.ttest_ind\<close> of two arrays (a float,
    possibly \<open>nan\<close>; the function does not raise on two arrays of 100 floats);
  \<^item> \<open>f_oneway\<close>: the \<open>pvalue\<close> field of \<open>scipy.stats.f_oneway\<close> of a sequence of arrays,
    or the exception the library raises (it has nothing to concatenate when called with
    no array at all);
  \<^item> \<open>lt\<close>: the comparison \<open><\<close> of two floats (false when either side is \<open>nan\<close>);
  \<^item> \<open>truediv\<close>: Python's \<open>/\<close> of two integers with a divisor other than zero.
  Floats are a type \<open>'f\<close> of their own, with the constants \<open>0\<close> and \<open>1\<close>: only the
  comparison and the division above are ever applied to them.
\<close>

datatype error = InvalidArgument | ZeroDivisionError | ValueError | TypeError

subsection \<open>Python constructs\<close>

text \<open>
  \<open>[f() for _ in range(k)]\<close> for a call \<open>f\<close> that only advances the generator: the calls
  happen in order, each on the state its predecessor left.
\<close>

fun repeat_calls :: "('g \<Rightarrow> 'a \<times> 'g) \<Rightarrow> nat \<Rightarrow> 'g \<Rightarrow> 'a list \<times> 'g" where
  "repeat_calls f 0 g = ([], g)"
| "repeat_calls f (Suc k) g =
     (case f g of (x, g1) \<Rightarrow>
        (case repeat_calls f k g1 of (xs, g2) \<Rightarrow> (x # xs, g2)))"

text \<open>
  The same comprehension for a call that may raise: the first exception ends the
  comprehension and is its outcome; the generator keeps the state reached.
\<close>

fun repeat_raising ::
  "('g \<Rightarrow> (error + 'a) \<times> 'g) \<Rightarrow> nat \<Rightarrow> 'g \<Rightarrow> (error + 'a list) \<times> 'g" where
  "repeat_raising f 0 g = (Inr [], g)"
| "repeat_raising f (Suc k) g =
     (case f g of
        (Inl e, g1) \<Rightarrow> (Inl e, g1)
      | (Inr x, g1) \<Rightarrow>
          (case repeat_raising f k g1 of
             (Inl e, g2) \<Rightarrow> (Inl e, g2)
           | (Inr xs, g2) \<Rightarrow> (Inr (x # xs), g2)))"

text \<open>
  \<open>itertools.combinations(xs, r)\<close>: the \<open>r\<close>-element subsequences of \<open>xs\<close>, chosen by
  position, in lexicographic order of the positions.
\<close>

fun combinations :: "'a list \<Rightarrow> nat \<Rightarrow> 'a list list" where
  "combinations xs 0 = [[]]"
| "combinations [] (Suc r) = []"
| "combinations (x # xs) (Suc r) =
     map ((#) x) (combinations xs r) @ combinations xs (Suc r)"

text \<open>The builtin \<open>any\<close> on a list of booleans.\<close>

fun any_py :: "bool list \<Rightarrow> bool" where
  "any_py [] = False"
| "any_py (b # bs) = (b \<or> any_py bs)"

subsection \<open>The generator\<close>

text \<open>
  \<open>np.random.normal(loc=0.0, scale=1.0, size=None)\<close> called with a \<open>size\<close>: an array of
  \<open>size\<close> successive draws from the normal distribution with mean \<open>loc\<close> and standard
  deviation \<open>scale\<close>, each draw on the generator state its predecessor left.
\<close>

definition np_random_normal ::
  "('f \<Rightarrow> 'f \<Rightarrow> 'g \<Rightarrow> 'f \<times> 'g) \<Rightarrow> 'f \<Rightarrow> 'f \<Rightarrow> nat \<Rightarrow> 'g \<Rightarrow> 'f list \<times> 'g" where
  "np_random_normal normal loc scale size' g = repeat_calls (normal loc scale) size' g"

text \<open>
  \<^verbatim>\<open>
  def sample():
      """
      Draws a sample of 100 independent observations from the same population.
      In this case, the true population is standard normal.
      """
      return np.random.normal(size=100)
  \<close>
  \<open>loc\<close> and \<open>scale\<close> are left at their defaults, 0 and 1.
\<close>

definition sample :: "('f::{zero,one} \<Rightarrow> 'f \<Rightarrow> 'g \<Rightarrow> 'f \<times> 'g) \<Rightarrow> 'g \<Rightarrow> 'f list \<times> 'g" where
  "sample normal g = np_random_normal normal 0 1 100 g"

subsection \<open>The two testing procedures\<close>

text \<open>
  The list the pairwise procedure hands to \<open>any\<close>:
  \<^verbatim>\<open>[ttest_ind(pair[0], pair[1]).pvalue < pairwise_sig for pair in pairs]\<close>
\<close>

definition pair_indicators ::
  "('f list \<Rightarrow> 'f list \<Rightarrow> 'f) \<Rightarrow> ('f \<Rightarrow> 'f \<Rightarrow> bool) \<Rightarrow> 'f \<Rightarrow> 'f list list list \<Rightarrow> bool list" where
  "pair_indicators ttest_ind lt pairwise_sig pairs =
     map (\<lambda>pair. lt (ttest_ind (pair ! 0) (pair ! 1)) pairwise_sig) pairs"

text \<open>
  \<^verbatim>\<open>
  def do_all_way_pairwise_tests(num_groups, pairwise_sig):
      groups = [sample() for _ in range(num_groups)]
      pairs = combinations(groups, r=2)
      return any(
          [ttest_ind(pair[0], pair[1]).pvalue < pairwise_sig for pair in pairs]
      )
  \<close>
  \<open>range(num_groups)\<close> is empty for a \<open>num_groups\<close> below one, hence \<open>nat num_groups\<close>
  calls of \<open>sample\<close>.
\<close>

definition do_all_way_pairwise_tests ::
  "('f::{zero,one} \<Rightarrow> 'f \<Rightarrow> 'g \<Rightarrow> 'f \<times> 'g) \<Rightarrow> ('f list \<Rightarrow> 'f list \<Rightarrow> 'f) \<Rightarrow>
   ('f \<Rightarrow> 'f \<Rightarrow> bool) \<Rightarrow>
   int \<Rightarrow> 'f \<Rightarrow> 'g \<Rightarrow> (error + bool) \<times> 'g" where
  "do_all_way_pairwise_tests normal ttest_ind lt num_groups pairwise_sig g =
     (case repeat_calls (sample normal) (nat num_groups) g of (groups, g') \<Rightarrow>
        (let pairs = combinations groups 2
         in (Inr (any_py (pair_indicators ttest_ind lt pairwise_sig pairs)), g')))"

text \<open>
  \<^verbatim>\<open>
  def do_ANOVA(num_groups, sig):
      groups = [sample() for _ in range(num_groups)]
      pairs = combinations(groups, r=2)
      return f_oneway(*groups).pvalue < sig
  \<close>
  \<open>pairs\<close> is built and never read.
\<close>

definition do_ANOVA ::
  "('f::{zero,one} \<Rightarrow> 'f \<Rightarrow> 'g \<Rightarrow> 'f \<times> 'g) \<Rightarrow> ('f list list \<Rightarrow> error + 'f) \<Rightarrow>
   ('f \<Rightarrow> 'f \<Rightarrow> bool) \<Rightarrow>
   int \<Rightarrow> 'f \<Rightarrow> 'g \<Rightarrow> (error + bool) \<times> 'g" where
  "do_ANOVA normal f_oneway lt num_groups sig g =
     (case repeat_calls (sample normal) (nat num_groups) g of (groups, g') \<Rightarrow>
        (let pairs = combinations groups 2
         in (case f_oneway groups of
               Inl e \<Rightarrow> (Inl e, g')
             | Inr pvalue \<Rightarrow> (Inr (lt pvalue sig), g'))))"

subsection \<open>The driver cells\<close>

text \<open>
  \<^verbatim>\<open>
  num_trials = 1000
  results = [procedure(...) for _ in range(num_trials)]
  num_false_positives = results.count(True)
  empirical_FPR = num_false_positives / num_trials
  \<close>
  with the procedure and \<open>num_trials\<close> as arguments. The value is the pair the cell
  prints. A division by zero raises \<open>ZeroDivisionError\<close>.
\<close>

definition run_trials ::
  "('g \<Rightarrow> (error + bool) \<times> 'g) \<Rightarrow> (int \<Rightarrow> int \<Rightarrow> 'f) \<Rightarrow> int \<Rightarrow> 'g \<Rightarrow>
   (error + int \<times> 'f) \<times> 'g" where
  "run_trials procedure truediv num_trials g =
     (case repeat_raising procedure (nat num_trials) g of
        (Inl e, g') \<Rightarrow> (Inl e, g')
      | (Inr results, g') \<Rightarrow>
          (let num_false_positives = int (count_list results True)
           in if num_trials = 0 then (Inl ZeroDivisionError, g')
              else (Inr (num_false_positives, truediv num_false_positives num_trials), g')))"

section \<open>Facts about the Python constructs\<close>

lemma repeat_calls_Suc:
  "repeat_calls f (Suc k) g =
     (fst (f g) # fst (repeat_calls f k (snd (f g))), snd (repeat_calls f k (snd (f g))))"
  by (simp split: prod.splits)

lemma repeat_calls_length: "length (fst (repeat_calls f k g)) = k"
proof (induction k arbitrary: g)
  case 0
  show ?case by simp
next
  case (Suc k)
  then show ?case by (simp only: repeat_calls_Suc fst_conv length_Cons)
qed

lemma repeat_calls_state: "snd (repeat_calls f k g) = ((\<lambda>s. snd (f s)) ^^ k) g"
proof (induction k arbitrary: g)
  case 0
  show ?case by simp
next
  case (Suc k)
  have "snd (repeat_calls f (Suc k) g) = snd (repeat_calls f k (snd (f g)))"
    by (simp only: repeat_calls_Suc snd_conv)
  also have "\<dots> = ((\<lambda>s. snd (f s)) ^^ k) (snd (f g))"
    by (rule Suc.IH)
  also have "\<dots> = ((\<lambda>s. snd (f s)) ^^ Suc k) g"
    by (simp only: funpow_Suc_right o_apply)
  finally show ?case .
qed

lemma repeat_calls_nth:
  "i < k \<Longrightarrow> fst (repeat_calls f k g) ! i = fst (f (((\<lambda>s. snd (f s)) ^^ i) g))"
proof (induction k arbitrary: g i)
  case 0
  then show ?case by simp
next
  case (Suc k)
  show ?case
  proof (cases i)
    case 0
    then show ?thesis by (simp only: repeat_calls_Suc fst_conv) simp
  next
    case (Suc i')
    with Suc.prems have "i' < k" by simp
    from Suc.IH [OF this, of "snd (f g)"]
    have "fst (repeat_calls f k (snd (f g))) ! i'
          = fst (f (((\<lambda>s. snd (f s)) ^^ Suc i') g))"
      by (simp only: funpow_Suc_right o_apply)
    with Suc show ?thesis by (simp only: repeat_calls_Suc fst_conv nth_Cons_Suc)
  qed
qed

lemma sample_length: "length (fst (sample normal g)) = 100"
  by (simp add: sample_def np_random_normal_def repeat_calls_length)

lemma groups_all_100:
  "s \<in> set (fst (repeat_calls (sample normal) k g)) \<Longrightarrow> length s = 100"
proof (induction k arbitrary: g)
  case 0
  then show ?case by simp
next
  case (Suc k)
  from Suc.prems
  have "s = fst (sample normal g)
        \<or> s \<in> set (fst (repeat_calls (sample normal) k (snd (sample normal g))))"
    by (simp only: repeat_calls_Suc fst_conv set_simps insert_iff)
  then show ?case
  proof
    assume "s = fst (sample normal g)"
    then show ?thesis by (simp only: sample_length)
  next
    assume "s \<in> set (fst (repeat_calls (sample normal) k (snd (sample normal g))))"
    then show ?thesis by (rule Suc.IH)
  qed
qed

subsection \<open>Combinations and \<open>any\<close>\<close>

lemma combinations_one: "combinations xs (Suc 0) = map (\<lambda>x. [x]) xs"
  by (induction xs) simp_all

lemma combinations_length_elem: "p \<in> set (combinations xs r) \<Longrightarrow> length p = r"
  by (induction xs r arbitrary: p rule: combinations.induct) auto

lemma combinations_count: "length (combinations xs r) = length xs choose r"
  by (induction xs r rule: combinations.induct) simp_all

lemma any_py_iff: "any_py bs \<longleftrightarrow> True \<in> set bs"
  by (induction bs) auto

lemma combinations_two_Cons:
  "combinations (x # xs) 2 = map (\<lambda>y. [x, y]) xs @ combinations xs 2"
  by (simp add: numeral_2_eq_2 combinations_one)

lemma pairs_exists:
  "(\<exists>p \<in> set (combinations xs 2). P (p ! 0) (p ! 1))
   \<longleftrightarrow> (\<exists>i j. i < j \<and> j < length xs \<and> P (xs ! i) (xs ! j))"
proof (induction xs)
  case Nil
  show ?case by (simp add: numeral_2_eq_2)
next
  case (Cons x xs)
  have "(\<exists>p \<in> set (combinations (x # xs) 2). P (p ! 0) (p ! 1))
        \<longleftrightarrow> (\<exists>y \<in> set xs. P x y) \<or> (\<exists>p \<in> set (combinations xs 2). P (p ! 0) (p ! 1))"
    by (simp add: combinations_two_Cons bex_Un)
  also have "\<dots> \<longleftrightarrow> (\<exists>j < length xs. P x (xs ! j))
                   \<or> (\<exists>i j. i < j \<and> j < length xs \<and> P (xs ! i) (xs ! j))"
    by (simp only: Cons.IH) (metis in_set_conv_nth)
  also have "\<dots> \<longleftrightarrow> (\<exists>i j. i < j \<and> j < length (x # xs) \<and> P ((x # xs) ! i) ((x # xs) ! j))"
    (is "?L \<longleftrightarrow> ?R")
  proof
    assume ?L
    then show ?R
    proof
      assume "\<exists>j < length xs. P x (xs ! j)"
      then obtain j where "j < length xs" "P x (xs ! j)" by blast
      then have "0 < Suc j \<and> Suc j < length (x # xs) \<and> P ((x # xs) ! 0) ((x # xs) ! Suc j)"
        by simp
      then show ?R by blast
    next
      assume "\<exists>i j. i < j \<and> j < length xs \<and> P (xs ! i) (xs ! j)"
      then obtain i j where "i < j" "j < length xs" "P (xs ! i) (xs ! j)" by blast
      then have "Suc i < Suc j \<and> Suc j < length (x # xs)
                 \<and> P ((x # xs) ! Suc i) ((x # xs) ! Suc j)"
        by simp
      then show ?R by blast
    qed
  next
    assume ?R
    then obtain i j where ij: "i < j" "j < length (x # xs)" "P ((x # xs) ! i) ((x # xs) ! j)"
      by blast
    from ij(1) obtain j' where j': "j = Suc j'" by (cases j) simp_all
    show ?L
    proof (cases i)
      case 0
      with ij j' have "j' < length xs \<and> P x (xs ! j')" by simp
      then show ?thesis by blast
    next
      case (Suc i')
      with ij j' have "i' < j' \<and> j' < length xs \<and> P (xs ! i') (xs ! j')" by simp
      then show ?thesis by blast
    qed
  qed
  finally show ?case .
qed


lemma combinations_short: "length xs < r \<Longrightarrow> combinations xs r = []"
  by (induction xs r rule: combinations.induct) simp_all

lemma combinations_elems:
  "p \<in> set (combinations xs r) \<Longrightarrow> y \<in> set p \<Longrightarrow> y \<in> set xs"
proof (induction xs r arbitrary: p rule: combinations.induct)
  case (1 xs)
  then show ?case by simp
next
  case (2 r)
  then show ?case by simp
next
  case (3 x xs r)
  from "3.prems"(1)
  consider q where "p = x # q" "q \<in> set (combinations xs r)"
    | "p \<in> set (combinations xs (Suc r))"
    by auto
  then show ?case
  proof cases
    case 1
    with "3.prems"(2) have "y = x \<or> y \<in> set q" by simp
    with 1 "3.IH"(1) show ?thesis by auto
  next
    case 2
    with "3.prems"(2) "3.IH"(2) show ?thesis by auto
  qed
qed

lemma any_py_indicators:
  "any_py (pair_indicators ttest_ind lt sig pairs)
   \<longleftrightarrow> (\<exists>pair \<in> set pairs. lt (ttest_ind (pair ! 0) (pair ! 1)) sig)"
  by (auto simp: any_py_iff pair_indicators_def)

lemma do_all_way_unfold:
  "do_all_way_pairwise_tests normal ttest_ind lt num_groups sig g =
     (Inr (any_py (pair_indicators ttest_ind lt sig
             (combinations (fst (repeat_calls (sample normal) (nat num_groups) g)) 2))),
      snd (repeat_calls (sample normal) (nat num_groups) g))"
  by (simp add: do_all_way_pairwise_tests_def split: prod.splits)

lemma do_ANOVA_unfold:
  "do_ANOVA normal f_oneway lt num_groups sig g =
     (case f_oneway (fst (repeat_calls (sample normal) (nat num_groups) g)) of
        Inl e \<Rightarrow> Inl e
      | Inr pvalue \<Rightarrow> Inr (lt pvalue sig),
      snd (repeat_calls (sample normal) (nat num_groups) g))"
  by (simp add: do_ANOVA_def split: prod.splits sum.splits)

subsection \<open>The trial loop\<close>

lemma repeat_raising_all_return:
  assumes "\<forall>k < n. fst (f (((\<lambda>s. snd (f s)) ^^ k) g)) = Inr (outcome k)"
  shows "repeat_raising f n g = (Inr (map outcome [0..<n]), ((\<lambda>s. snd (f s)) ^^ n) g)"
  using assms
proof (induction n arbitrary: g outcome)
  case 0
  show ?case by simp
next
  case (Suc n)
  let ?step = "\<lambda>s. snd (f s)"
  obtain r g1 where fg: "f g = (r, g1)"
    by (cases "f g")
  then have g1: "?step g = g1"
    by simp
  from Suc.prems have "fst (f ((?step ^^ 0) g)) = Inr (outcome 0)"
    by blast
  with fg have r: "r = Inr (outcome 0)"
    by simp
  have "\<forall>k < n. fst (f ((?step ^^ k) g1)) = Inr ((outcome \<circ> Suc) k)"
  proof (intro allI impI)
    fix k assume "k < n"
    then have "Suc k < Suc n" by simp
    with Suc.prems have "fst (f ((?step ^^ Suc k) g)) = Inr (outcome (Suc k))"
      by blast
    then show "fst (f ((?step ^^ k) g1)) = Inr ((outcome \<circ> Suc) k)"
      by (simp only: funpow_Suc_right o_apply g1)
  qed
  then have rest: "repeat_raising f n g1
                   = (Inr (map (outcome \<circ> Suc) [0..<n]), (?step ^^ n) g1)"
    by (rule Suc.IH)
  have "[0..<Suc n] = 0 # [Suc 0..<Suc n]"
    by (rule upt_conv_Cons) simp
  also have "[Suc 0..<Suc n] = map Suc [0..<n]"
    by (rule map_Suc_upt [symmetric])
  finally have idx: "[0..<Suc n] = 0 # map Suc [0..<n]" .
  have upt: "map outcome [0..<Suc n] = outcome 0 # map (outcome \<circ> Suc) [0..<n]"
    by (simp only: idx list.map map_map)
  have "repeat_raising f (Suc n) g
        = (Inr (outcome 0 # map (outcome \<circ> Suc) [0..<n]), (?step ^^ n) g1)"
    by (simp only: repeat_raising.simps fg r rest prod.case sum.case)
  then show ?case
    by (simp only: upt funpow_Suc_right o_apply g1)
qed

lemma count_list_map_True: "count_list (map p xs) True = length (filter p xs)"
  by (induction xs) simp_all

section \<open>The claims\<close>

subsection \<open>C1: the pairwise procedure reports a result iff some pair is significant\<close>

text \<open>
  C1. For a \<open>num_groups\<close> of at least two and any \<open>alpha\<close>, \<open>do_all_way_pairwise_tests\<close>
  draws \<open>num_groups\<close> groups, forms the \<open>num_groups choose 2\<close> pairs of groups at distinct
  positions, and returns true exactly when some pair of groups at positions \<open>i < j\<close> has
  a t-test p-value below \<open>alpha\<close>; that is the disjunction of the per-pair indicators
  over all the pairs.
\<close>

theorem all_pairs_any_significant:
  assumes "2 \<le> num_groups"
  shows "(let groups = fst (repeat_calls (sample normal) (nat num_groups) g)
          in length groups = nat num_groups
             \<and> length (combinations groups 2) = nat num_groups choose 2
             \<and> fst (do_all_way_pairwise_tests normal ttest_ind lt num_groups alpha g)
                 = Inr (any_py (pair_indicators ttest_ind lt alpha (combinations groups 2)))
             \<and> fst (do_all_way_pairwise_tests normal ttest_ind lt num_groups alpha g)
                 = Inr (\<exists>i j. i < j \<and> j < nat num_groups
                          \<and> lt (ttest_ind (groups ! i) (groups ! j)) alpha))"
proof -
  define groups where "groups = fst (repeat_calls (sample normal) (nat num_groups) g)"
  have len: "length groups = nat num_groups"
    by (simp add: groups_def repeat_calls_length)
  have cnt: "length (combinations groups 2) = nat num_groups choose 2"
    by (simp add: combinations_count len)
  have res: "fst (do_all_way_pairwise_tests normal ttest_ind lt num_groups alpha g)
             = Inr (any_py (pair_indicators ttest_ind lt alpha (combinations groups 2)))"
    by (simp add: do_all_way_unfold groups_def)
  have "any_py (pair_indicators ttest_ind lt alpha (combinations groups 2))
        \<longleftrightarrow> (\<exists>i j. i < j \<and> j < length groups
                  \<and> lt (ttest_ind (groups ! i) (groups ! j)) alpha)"
    unfolding any_py_indicators
    by (rule pairs_exists [of groups "\<lambda>a b. lt (ttest_ind a b) alpha"])
  with res len
  have ex: "fst (do_all_way_pairwise_tests normal ttest_ind lt num_groups alpha g)
            = Inr (\<exists>i j. i < j \<and> j < nat num_groups
                     \<and> lt (ttest_ind (groups ! i) (groups ! j)) alpha)"
    by simp
  from len cnt res ex show ?thesis
    unfolding Let_def groups_def [symmetric] by (intro conjI)
qed

theorem all_pairs_any_significant_witness:
  "(2::int) \<le> 3
   \<and> fst (do_all_way_pairwise_tests (\<lambda>loc scale (g::int). (loc + scale * real_of_int g, g + 1))
            (\<lambda>a b. 1 / (b ! 0 - a ! 0)) (<) 3 0.05 0) = Inr True"
proof -
  let ?normal = "\<lambda>loc scale (g::int). (loc + scale * real_of_int g, g + 1)"
  let ?tt = "\<lambda>a b::real list. 1 / (b ! 0 - a ! 0)"
  let ?groups = "fst (repeat_calls (sample ?normal) (nat 3) 0)"
  have h: "(2::int) \<le> 3" by simp
  have e: "?tt (?groups ! 0) (?groups ! 1) < 0.05" by code_simp
  have ex: "\<exists>i j. i < j \<and> j < nat 3 \<and> ?tt (?groups ! i) (?groups ! j) < 0.05"
  proof (intro exI conjI)
    show "(0::nat) < 1" by simp
    show "1 < nat 3" by simp
    show "?tt (?groups ! 0) (?groups ! 1) < 0.05" by (rule e)
  qed
  note t = all_pairs_any_significant [OF h, of ?normal 0 ?tt "(<)" "0.05", unfolded Let_def]
  from t have "fst (do_all_way_pairwise_tests ?normal ?tt (<) 3 0.05 0)
               = Inr (\<exists>i j. i < j \<and> j < nat 3 \<and> ?tt (?groups ! i) (?groups ! j) < 0.05)"
    by blast
  with ex have "fst (do_all_way_pairwise_tests ?normal ?tt (<) 3 0.05 0) = Inr True"
    by simp
  with h show ?thesis by (intro conjI)
qed

subsection \<open>C2: the ANOVA procedure is one test on all the groups\<close>

text \<open>
  C2. For a \<open>num_groups\<close> of at least two and any \<open>sig\<close>, \<open>do_ANOVA\<close> hands the whole list
  of the \<open>num_groups\<close> groups it drew to one call of \<open>f_oneway\<close> and returns whether the
  p-value of that call is below \<open>sig\<close>; an exception of that call is the outcome of
  \<open>do_ANOVA\<close>. No t-test is involved: \<open>do_ANOVA\<close> does not take one.
\<close>

theorem anova_single_test:
  assumes "2 \<le> num_groups"
  shows "(let groups = fst (repeat_calls (sample normal) (nat num_groups) g)
          in length groups = nat num_groups
             \<and> fst (do_ANOVA normal f_oneway lt num_groups sig g)
                 = (case f_oneway groups of
                      Inl e \<Rightarrow> Inl e
                    | Inr pvalue \<Rightarrow> Inr (lt pvalue sig)))"
  by (simp add: Let_def repeat_calls_length do_ANOVA_unfold)

theorem anova_single_test_witness:
  "(2::int) \<le> 3
   \<and> fst (do_ANOVA (\<lambda>loc scale (g::int). (loc + scale * real_of_int g, g + 1))
            (\<lambda>gs. if length gs < 2 then Inl TypeError else Inr (1 / (1 + gs ! 2 ! 0)))
            (<) 3 0.05 0) = Inr True"
proof -
  let ?normal = "\<lambda>loc scale (g::int). (loc + scale * real_of_int g, g + 1)"
  let ?f = "\<lambda>gs::real list list.
              if length gs < 2 then Inl TypeError else Inr (1 / (1 + gs ! 2 ! 0))"
  let ?groups = "fst (repeat_calls (sample ?normal) (nat 3) 0)"
  have h: "(2::int) \<le> 3" by simp
  have e: "(case ?f ?groups of Inl e \<Rightarrow> Inl e | Inr pvalue \<Rightarrow> Inr (pvalue < 0.05))
           = Inr True"
    by code_simp
  note t = anova_single_test [OF h, of ?normal 0 ?f "(<)" "0.05", unfolded Let_def]
  from t have "fst (do_ANOVA ?normal ?f (<) 3 0.05 0)
               = (case ?f ?groups of Inl e \<Rightarrow> Inl e | Inr pvalue \<Rightarrow> Inr (pvalue < 0.05))"
    by blast
  then have "fst (do_ANOVA ?normal ?f (<) 3 0.05 0) = Inr True"
    by (simp only: e)
  with h show ?thesis by (intro conjI)
qed

subsection \<open>C3: fewer than two groups are not rejected\<close>

text \<open>
  C3 reads: with a \<open>num_groups\<close> below two, both procedures fail with InvalidArgument.
  Neither procedure checks its arguments. With one group and the significance 0.05 the
  pairwise procedure returns false.
\<close>

theorem degenerate_input_counterexample:
  "fst (do_all_way_pairwise_tests (\<lambda>loc scale (g::int). (loc + scale * real_of_int g, g + 1))
          (\<lambda>a b. 1 / (b ! 0 - a ! 0)) (<) 1 0.05 0) = Inr False
   \<and> fst (do_all_way_pairwise_tests (\<lambda>loc scale (g::int). (loc + scale * real_of_int g, g + 1))
          (\<lambda>a b. 1 / (b ! 0 - a ! 0)) (<) 1 0.05 0) \<noteq> Inl InvalidArgument"
proof -
  let ?groups = "fst (repeat_calls (sample (\<lambda>loc scale (g::int). (loc + scale * real_of_int g, g + 1))) (nat 1) 0)"
  let ?run = "do_all_way_pairwise_tests (\<lambda>loc scale (g::int). (loc + scale * real_of_int g, g + 1))
                (\<lambda>a b. 1 / (b ! 0 - a ! 0)) (<) 1 0.05 0"
  have "length ?groups = nat 1"
    by (rule repeat_calls_length)
  then have "length ?groups < 2"
    by simp
  then have "combinations ?groups 2 = []"
    by (rule combinations_short)
  then have "fst ?run = Inr False"
    by (simp only: do_all_way_unfold fst_conv pair_indicators_def list.map any_py.simps)
  then show ?thesis
    by simp
qed

text \<open>
  C3, amended. For a \<open>num_groups\<close> below two and any \<open>alpha\<close>,
  \<open>do_all_way_pairwise_tests\<close> returns false and raises nothing, and \<open>do_ANOVA\<close>, which
  has no check of its own, hands its fewer than two groups to \<open>f_oneway\<close>: it raises
  what that call raises, and returns the comparison of its p-value with \<open>alpha\<close> when
  the call returns one.
\<close>

theorem degenerate_input_no_check:
  assumes "num_groups < 2"
  shows "fst (do_all_way_pairwise_tests normal ttest_ind lt num_groups alpha g) = Inr False
         \<and> fst (do_ANOVA normal f_oneway lt num_groups alpha g)
             = (case f_oneway (fst (repeat_calls (sample normal) (nat num_groups) g)) of
                  Inl e \<Rightarrow> Inl e
                | Inr pvalue \<Rightarrow> Inr (lt pvalue alpha))
         \<and> length (fst (repeat_calls (sample normal) (nat num_groups) g)) < 2"
proof -
  let ?groups = "fst (repeat_calls (sample normal) (nat num_groups) g)"
  from assms have len: "length ?groups < 2"
    by (simp add: repeat_calls_length)
  then have "combinations ?groups 2 = []"
    by (rule combinations_short)
  then have "fst (do_all_way_pairwise_tests normal ttest_ind lt num_groups alpha g) = Inr False"
    by (simp add: do_all_way_unfold pair_indicators_def)
  moreover have "fst (do_ANOVA normal f_oneway lt num_groups alpha g)
             = (case f_oneway ?groups of
                  Inl e \<Rightarrow> Inl e
                | Inr pvalue \<Rightarrow> Inr (lt pvalue alpha))"
    by (simp add: do_ANOVA_unfold)
  ultimately show ?thesis using len by (intro conjI)
qed

theorem degenerate_input_no_check_witness:
  "(1::int) < 2
   \<and> fst (do_all_way_pairwise_tests (\<lambda>loc scale (g::int). (loc + scale * real_of_int g, g + 1))
            (\<lambda>a b. 1 / (b ! 0 - a ! 0)) (<) 1 0.05 0) = Inr False
   \<and> fst (do_ANOVA (\<lambda>loc scale (g::int). (loc + scale * real_of_int g, g + 1))
            (\<lambda>gs. if length gs < 2 then Inl TypeError else Inr (1 / (1 + gs ! 2 ! 0)))
            (<) 1 0.05 0) = Inl TypeError"
proof -
  let ?normal = "\<lambda>loc scale (g::int). (loc + scale * real_of_int g, g + 1)"
  let ?tt = "\<lambda>a b::real list. 1 / (b ! 0 - a ! 0)"
  let ?f = "\<lambda>gs::real list list.
              if length gs < 2 then Inl TypeError else Inr (1 / (1 + gs ! 2 ! 0))"
  let ?groups = "fst (repeat_calls (sample ?normal) (nat 1) 0)"
  have h: "(1::int) < 2" by simp
  note t = degenerate_input_no_check [OF h, of ?normal ?tt "(<)" "0.05" 0 ?f]
  from t have a: "fst (do_all_way_pairwise_tests ?normal ?tt (<) 1 0.05 0) = Inr False"
    by blast
  from t have l: "length ?groups < 2"
    by blast
  from t have "fst (do_ANOVA ?normal ?f (<) 1 0.05 0)
               = (case ?f ?groups of Inl e \<Rightarrow> Inl e | Inr pvalue \<Rightarrow> Inr (pvalue < 0.05))"
    by blast
  with l have b: "fst (do_ANOVA ?normal ?f (<) 1 0.05 0) = Inl TypeError"
    by simp
  from h a b show ?thesis by (intro conjI)
qed

subsection \<open>C4: the driver cell counts the trials that returned true\<close>

text \<open>
  C4. For a positive \<open>num_trials\<close> and a procedure whose trials all return, the driver
  cell calls the procedure \<open>num_trials\<close> times, each call on the generator state its
  predecessor left (\<open>outcome k\<close> is what call \<open>k\<close> returns), and yields the number of calls
  that returned true together with that number divided by \<open>num_trials\<close>, by Python's
  division of integers.
\<close>

theorem run_trials_counts:
  assumes "0 < num_trials"
      and "\<forall>k < nat num_trials.
             fst (procedure (((\<lambda>s. snd (procedure s)) ^^ k) g)) = Inr (outcome k)"
  shows "run_trials procedure truediv num_trials g
         = (Inr (int (length (filter outcome [0..<nat num_trials])),
                 truediv (int (length (filter outcome [0..<nat num_trials]))) num_trials),
            ((\<lambda>s. snd (procedure s)) ^^ nat num_trials) g)"
proof -
  from assms(2)
  have "repeat_raising procedure (nat num_trials) g
        = (Inr (map outcome [0..<nat num_trials]),
           ((\<lambda>s. snd (procedure s)) ^^ nat num_trials) g)"
    by (rule repeat_raising_all_return)
  with assms(1) show ?thesis
    by (simp add: run_trials_def count_list_map_True Let_def)
qed

theorem run_trials_counts_witness:
  "(0::int) < 3
   \<and> run_trials
        (do_all_way_pairwise_tests (\<lambda>loc scale (g::int). (loc + scale * real_of_int g, g + 1))
           (\<lambda>a b. 1 / (1 + a ! 0)) (<) 2 0.05)
        (\<lambda>a b. real_of_int a / real_of_int b) 3 0 = (Inr (2, 2 / 3), 600)"
proof -
  let ?proc = "do_all_way_pairwise_tests (\<lambda>loc scale (g::int). (loc + scale * real_of_int g, g + 1))
                 (\<lambda>a b::real list. 1 / (1 + a ! 0)) (<) 2 0.05"
  let ?step = "\<lambda>s. snd (?proc s)"
  let ?div = "\<lambda>a b. real_of_int a / real_of_int b"
  let ?out = "\<lambda>k::nat. k \<noteq> 0"
  have h: "(0::int) < 3" by simp
  have p0: "fst (?proc ((?step ^^ 0) 0)) = Inr (?out 0)" by code_simp
  have p1: "fst (?proc ((?step ^^ Suc 0) 0)) = Inr (?out (Suc 0))" by code_simp
  have p2: "fst (?proc ((?step ^^ Suc (Suc 0)) 0)) = Inr (?out (Suc (Suc 0)))" by code_simp
  have fin: "(?step ^^ nat 3) 0 = 600" by code_simp
  have o: "\<forall>k < nat 3. fst (?proc ((?step ^^ k) 0)) = Inr (?out k)"
  proof (intro allI impI)
    fix k :: nat
    assume "k < nat 3"
    then have "k = 0 \<or> k = Suc 0 \<or> k = Suc (Suc 0)"
      by (auto simp: numeral_3_eq_3 less_Suc_eq)
    then consider "k = 0" | "k = Suc 0" | "k = Suc (Suc 0)"
      by blast
    then show "fst (?proc ((?step ^^ k) 0)) = Inr (?out k)"
    proof cases
      case 1 then show ?thesis by (simp only: p0)
    next
      case 2 then show ?thesis by (simp only: p1)
    next
      case 3 then show ?thesis by (simp only: p2)
    qed
  qed
  have c: "int (length (filter ?out [0..<nat 3])) = 2" by code_simp
  have "run_trials ?proc ?div 3 0
        = (Inr (int (length (filter ?out [0..<nat 3])),
                ?div (int (length (filter ?out [0..<nat 3]))) 3),
           (?step ^^ nat 3) 0)"
    using h o by (rule run_trials_counts)
  then have "run_trials ?proc ?div 3 0 = (Inr (2, 2 / 3), 600)"
    by (simp only: c fin) simp
  with h show ?thesis by (intro conjI)
qed

subsection \<open>C6: the sample generator has no size\<close>

text \<open>
  C6 reads: for every positive \<open>size\<close>, the generator returns a sample of \<open>size\<close>
  independent draws from a standard normal distribution. \<open>sample\<close> takes no argument,
  and its sample does not have every positive length.
\<close>

theorem generate_sample_size_counterexample:
  "\<not> (\<forall>size::nat. 0 < size
         \<longrightarrow> length (fst (sample (\<lambda>loc scale (g::int). (loc + scale * real_of_int g, g + 1)) 0)) = size)"
proof
  assume "\<forall>size::nat. 0 < size
            \<longrightarrow> length (fst (sample (\<lambda>loc scale (g::int). (loc + scale * real_of_int g, g + 1)) 0)) = size"
  then have "length (fst (sample (\<lambda>loc scale (g::int). (loc + scale * real_of_int g, g + 1)) 0)) = 5"
    by simp
  then show False
    by (simp add: sample_length)
qed

text \<open>
  C6, amended. \<open>sample()\<close> takes no size: it returns a sample of exactly 100
  independent draws from a standard normal distribution (mean 0, variance 1), namely
  the next 100 draws of the generator from the normal distribution with \<open>loc = 0\<close> and
  \<open>scale = 1\<close>, each draw its own step of the generator and in the order drawn; its only
  effect is to advance the generator by these 100 draws.
\<close>

theorem sample_is_100_draws:
  "fst (sample normal g)
     = map (\<lambda>i. fst (normal 0 1 (((\<lambda>s. snd (normal 0 1 s)) ^^ i) g))) [0..<100]
   \<and> length (fst (sample normal g)) = 100
   \<and> snd (sample normal g) = ((\<lambda>s. snd (normal 0 1 s)) ^^ 100) g"
proof -
  have "fst (repeat_calls (normal 0 1) 100 g)
        = map (\<lambda>i. fst (normal 0 1 (((\<lambda>s. snd (normal 0 1 s)) ^^ i) g))) [0..<100]"
    by (rule nth_equalityI) (simp_all add: repeat_calls_length repeat_calls_nth)
  then show ?thesis
    by (simp add: sample_def np_random_normal_def repeat_calls_length repeat_calls_state)
qed

theorem sample_is_100_draws_witness:
  "fst (sample (\<lambda>loc scale (g::int). (loc + scale * real_of_int g, g + 1)) 5)
     = map (\<lambda>i. 5 + real i) [0..<100]
   \<and> length (fst (sample (\<lambda>loc scale (g::int). (loc + scale * real_of_int g, g + 1)) 5)) = 100
   \<and> snd (sample (\<lambda>loc scale (g::int). (loc + scale * real_of_int g, g + 1)) 5) = 105"
proof -
  let ?normal = "\<lambda>(loc::real) scale (g::int). (loc + scale * real_of_int g, g + 1)"
  have st: "((\<lambda>s. snd (?normal 0 1 s)) ^^ k) g = g + int k" for k g
    by (induction k) simp_all
  note t = sample_is_100_draws [of ?normal 5]
  from t have "fst (sample ?normal 5)
      = map (\<lambda>i. fst (?normal 0 1 (((\<lambda>s. snd (?normal 0 1 s)) ^^ i) 5))) [0..<100]"
    by blast
  then have a: "fst (sample ?normal 5) = map (\<lambda>i. 5 + real i) [0..<100]"
    by (simp only: st) simp
  from t have b: "length (fst (sample ?normal 5)) = 100"
    by blast
  from t have "snd (sample ?normal 5) = ((\<lambda>s. snd (?normal 0 1 s)) ^^ 100) 5"
    by blast
  then have c: "snd (sample ?normal 5) = 105"
    by (simp only: st)
  from a b c show ?thesis by (intro conjI)
qed

subsection \<open>C7: the order of the pairs does not matter\<close>

text \<open>
  C7. For the groups a call draws and any \<open>alpha\<close>, \<open>any\<close> of the indicators over any
  permutation of the sequence of pairs is the outcome of \<open>do_all_way_pairwise_tests\<close>.
\<close>

theorem pair_order_irrelevant:
  assumes "mset pairs' = mset (combinations (fst (repeat_calls (sample normal) (nat num_groups) g)) 2)"
  shows "fst (do_all_way_pairwise_tests normal ttest_ind lt num_groups alpha g)
         = Inr (any_py (pair_indicators ttest_ind lt alpha pairs'))"
proof -
  from assms
  have "set pairs' = set (combinations (fst (repeat_calls (sample normal) (nat num_groups) g)) 2)"
    by (rule mset_eq_setD)
  then show ?thesis
    by (simp add: do_all_way_unfold any_py_indicators)
qed

theorem pair_order_irrelevant_witness:
  "fst (do_all_way_pairwise_tests (\<lambda>loc scale (g::int). (loc + scale * real_of_int g, g + 1))
          (\<lambda>a b. 1 / (b ! 0 - a ! 0)) (<) 3 0.05 0)
   = Inr (any_py (pair_indicators (\<lambda>a b. 1 / (b ! 0 - a ! 0)) (<) 0.05
            (rev (combinations
               (fst (repeat_calls (sample (\<lambda>loc scale (g::int). (loc + scale * real_of_int g, g + 1))) (nat 3) 0)) 2))))"
  by (rule pair_order_irrelevant) (rule mset_rev)

subsection \<open>C9: fewer than two groups give false, not an error\<close>

text \<open>
  C9. For a \<open>num_groups\<close> of at most one (zero and the negative numbers included) and any
  \<open>pairwise_sig\<close>, \<open>do_all_way_pairwise_tests\<close> returns false without raising: it
  still draws its \<open>nat num_groups\<close> samples, the sequence of pairs is empty, and \<open>any\<close> of
  no indicator is false.
\<close>

theorem pairwise_degenerate_returns_false:
  assumes "num_groups \<le> 1"
  shows "do_all_way_pairwise_tests normal ttest_ind lt num_groups pairwise_sig g
           = (Inr False, ((\<lambda>s. snd (sample normal s)) ^^ nat num_groups) g)
         \<and> length (fst (repeat_calls (sample normal) (nat num_groups) g)) = nat num_groups
         \<and> combinations (fst (repeat_calls (sample normal) (nat num_groups) g)) 2 = []"
proof -
  let ?groups = "fst (repeat_calls (sample normal) (nat num_groups) g)"
  have len: "length ?groups = nat num_groups"
    by (rule repeat_calls_length)
  from assms have "nat num_groups < 2" by simp
  with len have emp: "combinations ?groups 2 = []"
    by (simp add: combinations_short)
  have "do_all_way_pairwise_tests normal ttest_ind lt num_groups pairwise_sig g
          = (Inr False, ((\<lambda>s. snd (sample normal s)) ^^ nat num_groups) g)"
    by (simp add: do_all_way_unfold emp pair_indicators_def repeat_calls_state)
  with len emp show ?thesis by (intro conjI)
qed

theorem pairwise_degenerate_returns_false_witness:
  "(1::int) \<le> 1
   \<and> do_all_way_pairwise_tests (\<lambda>loc scale (g::int). (loc + scale * real_of_int g, g + 1))
        (\<lambda>a b. 1 / (b ! 0 - a ! 0)) (<) 1 0.05 0 = (Inr False, 100)"
proof -
  let ?normal = "\<lambda>loc scale (g::int). (loc + scale * real_of_int g, g + 1)"
  let ?tt = "\<lambda>a b::real list. 1 / (b ! 0 - a ! 0)"
  have h: "(1::int) \<le> 1" by simp
  have e: "((\<lambda>s. snd (sample ?normal s)) ^^ nat 1) 0 = 100" by code_simp
  from pairwise_degenerate_returns_false [OF h, of ?normal ?tt "(<)" "0.05" 0]
  have "do_all_way_pairwise_tests ?normal ?tt (<) 1 0.05 0
        = (Inr False, ((\<lambda>s. snd (sample ?normal s)) ^^ nat 1) 0)"
    by blast
  with e have "do_all_way_pairwise_tests ?normal ?tt (<) 1 0.05 0 = (Inr False, 100)"
    by simp
  with h show ?thesis by (intro conjI)
qed

subsection \<open>C10: every sample has 100 observations\<close>

text \<open>
  C10. \<open>sample\<close> takes no size and always returns 100 observations, so for every
  \<open>num_groups\<close> each group drawn has length 100, and the procedures hand nothing else
  to the library: the outcome and the final state of \<open>do_all_way_pairwise_tests\<close> do
  not change when the t-test is replaced by one that agrees with it on pairs of arrays
  of length 100, and those of \<open>do_ANOVA\<close> do not change when the ANOVA is replaced by
  one that agrees with it on sequences of \<open>nat num_groups\<close> arrays of length 100.
\<close>

theorem samples_have_100_observations:
  assumes "\<forall>a b. length a = 100 \<and> length b = 100 \<longrightarrow> ttest_ind a b = ttest_ind' a b"
      and "\<forall>gs. length gs = nat num_groups \<and> (\<forall>s \<in> set gs. length s = 100)
                \<longrightarrow> f_oneway gs = f_oneway' gs"
  shows "length (fst (sample normal g)) = 100
   \<and> (\<forall>s \<in> set (fst (repeat_calls (sample normal) (nat num_groups) g)). length s = 100)
   \<and> (\<forall>pair \<in> set (combinations (fst (repeat_calls (sample normal) (nat num_groups) g)) 2).
        length pair = 2 \<and> length (pair ! 0) = 100 \<and> length (pair ! 1) = 100)
   \<and> do_all_way_pairwise_tests normal ttest_ind lt num_groups sig g
       = do_all_way_pairwise_tests normal ttest_ind' lt num_groups sig g
   \<and> do_ANOVA normal f_oneway lt num_groups sig g
       = do_ANOVA normal f_oneway' lt num_groups sig g"
proof -
  let ?groups = "fst (repeat_calls (sample normal) (nat num_groups) g)"
  have g: "\<forall>s \<in> set ?groups. length s = 100"
    by (blast intro: groups_all_100)
  have p: "length pair = 2 \<and> length (pair ! 0) = 100 \<and> length (pair ! 1) = 100"
    if m: "pair \<in> set (combinations ?groups 2)" for pair
  proof -
    from m have l: "length pair = 2" by (rule combinations_length_elem)
    then have "pair ! 0 \<in> set pair" "pair ! 1 \<in> set pair" by simp_all
    with m have "pair ! 0 \<in> set ?groups" "pair ! 1 \<in> set ?groups"
      by (blast intro: combinations_elems)+
    with g l show ?thesis by blast
  qed
  have "ttest_ind (pair ! 0) (pair ! 1) = ttest_ind' (pair ! 0) (pair ! 1)"
    if "pair \<in> set (combinations ?groups 2)" for pair
    using p [OF that] assms(1) by blast
  then have "pair_indicators ttest_ind lt sig (combinations ?groups 2)
             = pair_indicators ttest_ind' lt sig (combinations ?groups 2)"
    by (simp add: pair_indicators_def)
  then have t: "do_all_way_pairwise_tests normal ttest_ind lt num_groups sig g
                = do_all_way_pairwise_tests normal ttest_ind' lt num_groups sig g"
    by (simp only: do_all_way_unfold)
  have "length ?groups = nat num_groups"
    by (rule repeat_calls_length)
  with g assms(2) have "f_oneway ?groups = f_oneway' ?groups"
    by blast
  then have f: "do_ANOVA normal f_oneway lt num_groups sig g
                = do_ANOVA normal f_oneway' lt num_groups sig g"
    by (simp only: do_ANOVA_unfold)
  from g p t f sample_length [of normal g] show ?thesis by blast
qed

theorem samples_have_100_observations_witness:
  "map length
     (fst (repeat_calls (sample (\<lambda>loc scale (g::int). (loc + scale * real_of_int g, g + 1)))
             (nat 3) 0)) = [100, 100, 100]
   \<and> do_all_way_pairwise_tests (\<lambda>loc scale (g::int). (loc + scale * real_of_int g, g + 1))
        (\<lambda>a b. 1 / (b ! 0 - a ! 0)) (<) 3 0.05 0
     = do_all_way_pairwise_tests (\<lambda>loc scale (g::int). (loc + scale * real_of_int g, g + 1))
        (\<lambda>a b. if length a = 100 \<and> length b = 100 then 1 / (b ! 0 - a ! 0) else 0)
        (<) 3 0.05 0
   \<and> do_ANOVA (\<lambda>loc scale (g::int). (loc + scale * real_of_int g, g + 1))
        (\<lambda>gs. Inr (1 / (1 + gs ! 2 ! 0))) (<) 3 0.05 0
     = do_ANOVA (\<lambda>loc scale (g::int). (loc + scale * real_of_int g, g + 1))
        (\<lambda>gs. if length gs = 3 \<and> list_all (\<lambda>s. length s = 100) gs
              then Inr (1 / (1 + gs ! 2 ! 0)) else Inl ValueError)
        (<) 3 0.05 0"
proof -
  let ?normal = "\<lambda>(loc::real) scale (g::int). (loc + scale * real_of_int g, g + 1)"
  let ?tt = "\<lambda>a b::real list. 1 / (b ! 0 - a ! 0)"
  let ?tt' = "\<lambda>a b::real list.
                if length a = 100 \<and> length b = 100 then 1 / (b ! 0 - a ! 0) else 0"
  let ?f = "\<lambda>gs::real list list. Inr (1 / (1 + gs ! 2 ! 0)) :: error + real"
  let ?f' = "\<lambda>gs::real list list.
               if length gs = 3 \<and> list_all (\<lambda>s. length s = 100) gs
               then Inr (1 / (1 + gs ! 2 ! 0)) else Inl ValueError"
  let ?groups = "fst (repeat_calls (sample ?normal) (nat 3) 0)"
  have h1: "\<forall>a b. length a = 100 \<and> length b = 100 \<longrightarrow> ?tt a b = ?tt' a b"
    by simp
  have h2: "\<forall>gs. length gs = nat 3 \<and> (\<forall>s \<in> set gs. length s = 100) \<longrightarrow> ?f gs = ?f' gs"
    by (simp add: list_all_iff)
  note t = samples_have_100_observations [OF h1 h2, of ?normal 0 "(<)" "0.05"]
  have l: "length ?groups = 3"
    by (simp only: repeat_calls_length)
  from t have "\<forall>s \<in> set ?groups. length s = 100"
    by blast
  then have "\<forall>i < length ?groups. length (?groups ! i) = 100"
    by simp
  with l have "\<forall>i < 3. map length ?groups ! i = [100, 100, 100] ! i"
    by (simp add: less_Suc_eq numeral_3_eq_3)
  with l have a: "map length ?groups = [100, 100, 100]"
    by (simp add: list_eq_iff_nth_eq)
  from t have b: "do_all_way_pairwise_tests ?normal ?tt (<) 3 0.05 0
                  = do_all_way_pairwise_tests ?normal ?tt' (<) 3 0.05 0"
    by blast
  from t have c: "do_ANOVA ?normal ?f (<) 3 0.05 0 = do_ANOVA ?normal ?f' (<) 3 0.05 0"
    by blast
  from a b c show ?thesis by (intro conjI)
qed

end
